theory Spec2Isabelle
  imports Complex_Main "HOL-Library.Multiset"
begin

section \<open>Front-matter values\<close>

text \<open>
  The metadata record of a chapter is what the YAML front matter of the markdown file
  parses to: a JavaScript object whose property values are null, booleans, numbers,
  strings, dates, arrays or nested objects. \<open>undefined\<close> is not a value that front
  matter can hold; it only arises as the result of reading a property that is absent,
  which the model writes as \<open>None\<close>.

  A JavaScript number is NaN, one of the two infinities, or a finite value; the finite
  values are kept as rationals (every finite double is one), which is all the schema
  looks at.
\<close>

datatype jsnumber = NaN | PosInfinity | NegInfinity | Finite rat

datatype jsvalue =
    JNull
  | JBool bool
  | JNum jsnumber
  | JStr string
  | JDate int
  | JArr "jsvalue list"
  | JObj "string \<Rightarrow> jsvalue option"

text \<open>\<open>Number.isInteger\<close>: a finite number with no fractional part.\<close>

fun isInteger :: "jsnumber \<Rightarrow> bool" where
  "isInteger (Finite r) = (r = of_int \<lfloor>r\<rfloor>)"
| "isInteger _ = False"

section \<open>The schema library: types, issues, parse results\<close>

text \<open>
  The schema of the collection is built from the combinators \<open>z.string()\<close>,
  \<open>z.number()\<close> and \<open>z.object({...})\<close> of the zod library. Their meaning is the
  library's: every schema has a parse function that reads the input, appends the issues
  it finds to the issue list of the parse context, and returns either \<open>INVALID\<close> or
  the parsed value.
\<close>

datatype ZodParsedType =
    pt_string | pt_nan | pt_number | pt_boolean | pt_date
  | pt_undefined | pt_null | pt_array | pt_object

text \<open>\<open>getParsedType\<close>: the run-time type of an input; \<open>None\<close> is \<open>undefined\<close>.\<close>

fun getParsedType :: "jsvalue option \<Rightarrow> ZodParsedType" where
  "getParsedType None = pt_undefined"
| "getParsedType (Some (JStr s)) = pt_string"
| "getParsedType (Some (JNum n)) = (if n = NaN then pt_nan else pt_number)"
| "getParsedType (Some (JBool b)) = pt_boolean"
| "getParsedType (Some (JArr xs)) = pt_array"
| "getParsedType (Some JNull) = pt_null"
| "getParsedType (Some (JDate d)) = pt_date"
| "getParsedType (Some (JObj m)) = pt_object"

fun parsedTypeName :: "ZodParsedType \<Rightarrow> string" where
  "parsedTypeName pt_string = ''string''"
| "parsedTypeName pt_nan = ''nan''"
| "parsedTypeName pt_number = ''number''"
| "parsedTypeName pt_boolean = ''boolean''"
| "parsedTypeName pt_date = ''date''"
| "parsedTypeName pt_undefined = ''undefined''"
| "parsedTypeName pt_null = ''null''"
| "parsedTypeName pt_array = ''array''"
| "parsedTypeName pt_object = ''object''"

text \<open>The three schemas used here raise one kind of issue only, \<open>invalid_type\<close>.\<close>

datatype ZodIssueCode = invalid_type

record ZodIssue =
  code :: ZodIssueCode
  expected :: ZodParsedType
  received :: ZodParsedType
  path :: "string list"
  message :: string

text \<open>
  The library's default error map: an \<open>invalid_type\<close> issue whose received type is
  \<open>undefined\<close> reads "Required", any other names the two types.
\<close>

definition errorMap :: "ZodParsedType \<Rightarrow> ZodParsedType \<Rightarrow> string" where
  "errorMap expd rcvd =
     (if rcvd = pt_undefined then ''Required''
      else ''Expected '' @ parsedTypeName expd @ '', received '' @ parsedTypeName rcvd)"

definition makeIssue :: "string list \<Rightarrow> ZodParsedType \<Rightarrow> ZodParsedType \<Rightarrow> ZodIssue" where
  "makeIssue p expd rcvd =
     \<lparr>code = invalid_type, expected = expd, received = rcvd, path = p,
      message = errorMap expd rcvd\<rparr>"

text \<open>\<open>addIssueToContext\<close> pushes the issue onto the context's issue list.\<close>

definition addIssueToContext ::
  "string list \<Rightarrow> ZodParsedType \<Rightarrow> ZodParsedType \<Rightarrow> ZodIssue list \<Rightarrow> ZodIssue list" where
  "addIssueToContext p expd rcvd issues = issues @ [makeIssue p expd rcvd]"

datatype 'a ParseReturnType = INVALID | OK 'a

text \<open>
  A schema is its parse function: the path of the input inside the document, the input
  (\<open>None\<close> for \<open>undefined\<close>) and the issues collected so far go in; the result and
  the issues collected now come out.
\<close>

type_synonym ZodType =
  "string list \<Rightarrow> jsvalue option \<Rightarrow> ZodIssue list \<Rightarrow> jsvalue ParseReturnType \<times> ZodIssue list"

text \<open>\<open>z.string()\<close>: the input must be a string; it is returned as it is.\<close>

definition z_string :: ZodType where
  "z_string p input issues =
     (case input of
        Some (JStr s) \<Rightarrow> (OK (JStr s), issues)
      | _ \<Rightarrow> (INVALID, addIssueToContext p pt_string (getParsedType input) issues))"

text \<open>
  \<open>z.number()\<close>: the input must be a number other than NaN (whose parsed type is
  \<open>nan\<close>); it is returned as it is. No check is chained to it: neither \<open>int()\<close>
  nor \<open>finite()\<close>.
\<close>

definition z_number :: ZodType where
  "z_number p input issues =
     (case input of
        Some (JNum n) \<Rightarrow>
          (if n = NaN then (INVALID, addIssueToContext p pt_number pt_nan issues)
           else (OK (JNum n), issues))
      | _ \<Rightarrow> (INVALID, addIssueToContext p pt_number (getParsedType input) issues))"

text \<open>
  \<open>z.object(shape)\<close>: the input must be an object. Every key of the shape, in the
  shape's order, is read from the input (an absent key reads \<open>undefined\<close>) and parsed
  by the key's schema at the path extended by the key; all keys are parsed, also after
  one has failed, so the issues of every field are collected. Keys of the input that the
  shape does not name are not looked at (the default \<open>strip\<close> policy), so they are
  not in the result.
\<close>

fun parseShape ::
  "(string \<times> ZodType) list \<Rightarrow> string list \<Rightarrow> (string \<Rightarrow> jsvalue option) \<Rightarrow> ZodIssue list
     \<Rightarrow> (string \<times> jsvalue ParseReturnType) list \<times> ZodIssue list" where
  "parseShape [] p data issues = ([], issues)"
| "parseShape ((key, keyValidator) # shape) p data issues =
     (case keyValidator (p @ [key]) (data key) issues of
        (value, issues1) \<Rightarrow>
          (case parseShape shape p data issues1 of
             (pairs, issues2) \<Rightarrow> ((key, value) # pairs, issues2)))"

text \<open>
  \<open>mergeObjectSync\<close>: the result object is built from the parsed pairs; one invalid
  pair makes the whole object invalid, and no object is returned. A valid pair is set
  under its key unless the key is \<open>__proto__\<close> (the parsed value of a string or
  number schema is never \<open>undefined\<close>, so the library's test for that always passes).
\<close>

fun mergeObjectSync ::
  "(string \<times> jsvalue ParseReturnType) list \<Rightarrow> (string \<Rightarrow> jsvalue option)
     \<Rightarrow> (string \<Rightarrow> jsvalue option) ParseReturnType" where
  "mergeObjectSync [] finalObject = OK finalObject"
| "mergeObjectSync ((key, INVALID) # pairs) finalObject = INVALID"
| "mergeObjectSync ((key, OK v) # pairs) finalObject =
     mergeObjectSync pairs
       (if key \<noteq> ''__proto__'' then finalObject(key \<mapsto> v) else finalObject)"

definition z_object :: "(string \<times> ZodType) list \<Rightarrow> ZodType" where
  "z_object shape p input issues =
     (case input of
        Some (JObj data) \<Rightarrow>
          (case parseShape shape p data issues of
             (pairs, issues1) \<Rightarrow>
               (case mergeObjectSync pairs Map.empty of
                  INVALID \<Rightarrow> (INVALID, issues1)
                | OK finalObject \<Rightarrow> (OK (JObj finalObject), issues1)))
      | _ \<Rightarrow> (INVALID, addIssueToContext p pt_object (getParsedType input) issues))"

text \<open>
  \<open>safeParse\<close>: a parse in a fresh context (empty path, no issues). A valid result
  is the success, with the parsed data; otherwise the failure carries the issues.
\<close>

definition safeParse :: "ZodType \<Rightarrow> jsvalue \<Rightarrow> ZodIssue list + jsvalue" where
  "safeParse sch data =
     (case sch [] (Some data) [] of
        (OK v, issues) \<Rightarrow> Inr v
      | (INVALID, issues) \<Rightarrow> Inl issues)"

section \<open>The collection of the repository\<close>

datatype collection_type = Content | Data

record collection =
  ctype :: collection_type
  schema :: ZodType

definition jsProxyChapters :: collection where
  "jsProxyChapters =
     \<lparr>ctype = Content,
      schema = z_object
        [(''title'', z_string),
         (''description'', z_string),
         (''chapterNumber'', z_number)]\<rparr>"

definition collections :: "string \<Rightarrow> collection option" where
  "collections = [''js-proxy'' \<mapsto> jsProxyChapters]"

text \<open>Validation of one metadata record against the schema of the collection.\<close>

definition validate :: "(string \<Rightarrow> jsvalue option) \<Rightarrow> ZodIssue list + jsvalue" where
  "validate fm = safeParse (schema jsProxyChapters) (JObj fm)"

section \<open>The error kinds of the specification\<close>

text \<open>
  The library reports a missing field and a field of the wrong type with the same issue
  code, \<open>invalid_type\<close>, at the path of the field; what tells them apart is the received
  type, which is \<open>undefined\<close> exactly for the issue that reads "Required". The
  specification's two error kinds are these two sorts of issue.
\<close>

definition MissingFieldError :: "string \<Rightarrow> ZodIssue \<Rightarrow> bool" where
  "MissingFieldError field i \<longleftrightarrow>
     code i = invalid_type \<and> path i = [field] \<and> received i = pt_undefined"

definition TypeMismatchError :: "string \<Rightarrow> ZodIssue \<Rightarrow> bool" where
  "TypeMismatchError field i \<longleftrightarrow>
     code i = invalid_type \<and> path i = [field] \<and> received i \<noteq> pt_undefined"

section \<open>Auxiliary notions for the proofs\<close>

text \<open>The type the schema expects of a field, and the issues one field contributes.\<close>

definition expectedType :: "string \<Rightarrow> ZodParsedType" where
  "expectedType field = (if field = ''chapterNumber'' then pt_number else pt_string)"

definition fieldIssues ::
  "string list \<Rightarrow> string \<Rightarrow> ZodParsedType \<Rightarrow> (string \<Rightarrow> jsvalue option) \<Rightarrow> ZodIssue list" where
  "fieldIssues p key expd fm =
     (if getParsedType (fm key) = expd then []
      else [makeIssue (p @ [key]) expd (getParsedType (fm key))])"

definition wellTyped :: "(string \<Rightarrow> jsvalue option) \<Rightarrow> bool" where
  "wellTyped fm \<longleftrightarrow>
     getParsedType (fm ''title'') = pt_string \<and>
     getParsedType (fm ''description'') = pt_string \<and>
     getParsedType (fm ''chapterNumber'') = pt_number"

text \<open>A record cut down to the three fields of the schema.\<close>

definition stripped :: "(string \<Rightarrow> jsvalue option) \<Rightarrow> (string \<Rightarrow> jsvalue option)" where
  "stripped fm = fm |` {''title'', ''description'', ''chapterNumber''}"

section \<open>The build pipeline around the validator\<close>

text \<open>
  Modelled from the spec: the build pipeline that calls the validator is the static-site
  framework's and is not among the repository's sources. By the specification it takes a
  document, that is a front-matter record and a body text, invokes the validator on the
  record and, on success, passes the validated record and the raw body text onward; on
  failure it surfaces the error.
\<close>

record document =
  frontmatter :: "string \<Rightarrow> jsvalue option"
  body :: string

definition admit :: "document \<Rightarrow> ZodIssue list + (jsvalue \<times> string)" where
  "admit doc =
     (case validate (frontmatter doc) of
        Inl issues \<Rightarrow> Inl issues
      | Inr validated \<Rightarrow> Inr (validated, body doc))"

section \<open>The state of the schema object\<close>

text \<open>
  One thing outlives a parse in the library: an object schema keeps a memo of its shape
  and the shape's keys (\<open>_cached\<close>). The memo is empty when \<open>z.object\<close> builds
  the schema; the first parse of an object input fills it from the schema's definition,
  and every later parse takes the shape from the memo. The keys are the shape's, so the
  model keeps the shape. \<open>z_object\<close> above is the parse of a schema object with
  this memo left out; \<open>object_parse\<close> is the same parse with the schema object, and
  so its memo, handed in and out.
\<close>

record ZodObject =
  def_shape :: "(string \<times> ZodType) list"
  cached :: "(string \<times> ZodType) list option"

definition getCached :: "ZodObject \<Rightarrow> (string \<times> ZodType) list \<times> ZodObject" where
  "getCached obj =
     (case cached obj of
        Some sh \<Rightarrow> (sh, obj)
      | None \<Rightarrow> (def_shape obj, obj\<lparr>cached := Some (def_shape obj)\<rparr>))"

definition object_parse ::
  "ZodObject \<Rightarrow> string list \<Rightarrow> jsvalue option \<Rightarrow> ZodIssue list
     \<Rightarrow> (jsvalue ParseReturnType \<times> ZodIssue list) \<times> ZodObject" where
  "object_parse obj p input issues =
     (case input of
        Some (JObj data) \<Rightarrow>
          (case getCached obj of
             (sh, obj1) \<Rightarrow>
               (case parseShape sh p data issues of
                  (pairs, issues1) \<Rightarrow>
                    (case mergeObjectSync pairs Map.empty of
                       INVALID \<Rightarrow> ((INVALID, issues1), obj1)
                     | OK finalObject \<Rightarrow> ((OK (JObj finalObject), issues1), obj1))))
      | _ \<Rightarrow> ((INVALID, addIssueToContext p pt_object (getParsedType input) issues), obj))"

definition object_safeParse ::
  "ZodObject \<Rightarrow> jsvalue \<Rightarrow> (ZodIssue list + jsvalue) \<times> ZodObject" where
  "object_safeParse obj data =
     (case object_parse obj [] (Some data) [] of
        ((OK v, issues), obj1) \<Rightarrow> (Inr v, obj1)
      | ((INVALID, issues), obj1) \<Rightarrow> (Inl issues, obj1))"

text \<open>The schema object of the collection, as \<open>z.object\<close> builds it: no memo yet.\<close>

definition chaptersObject :: ZodObject where
  "chaptersObject =
     \<lparr>def_shape =
        [(''title'', z_string),
         (''description'', z_string),
         (''chapterNumber'', z_number)],
      cached = None\<rparr>"

text \<open>
  A run of validations on the one schema object: the records are validated one after the
  other, and the schema object goes from each validation to the next.
\<close>

fun validateAll ::
  "ZodObject \<Rightarrow> (string \<Rightarrow> jsvalue option) list \<Rightarrow> (ZodIssue list + jsvalue) list \<times> ZodObject" where
  "validateAll obj [] = ([], obj)"
| "validateAll obj (fm # fms) =
     (case object_safeParse obj (JObj fm) of
        (r, obj1) \<Rightarrow>
          (case validateAll obj1 fms of
             (rs, obj2) \<Rightarrow> (r # rs, obj2)))"

text \<open>For the proofs: the schema object with its memo filled, and the sound memos.\<close>

definition memoFilled :: "ZodObject \<Rightarrow> ZodObject" where
  "memoFilled obj = obj\<lparr>cached := Some (def_shape obj)\<rparr>"

definition memoSound :: "ZodObject \<Rightarrow> bool" where
  "memoSound obj \<longleftrightarrow> cached obj = None \<or> cached obj = Some (def_shape obj)"

section \<open>What the schema computes\<close>

lemma getParsedType_string: "getParsedType x = pt_string \<longleftrightarrow> (\<exists>s. x = Some (JStr s))"
  by (cases x rule: getParsedType.cases) simp_all

lemma getParsedType_number:
  "getParsedType x = pt_number \<longleftrightarrow> (\<exists>n. x = Some (JNum n) \<and> n \<noteq> NaN)"
  by (cases x rule: getParsedType.cases) simp_all

lemma getParsedType_undefined: "getParsedType x = pt_undefined \<longleftrightarrow> x = None"
  by (cases x rule: getParsedType.cases) simp_all

lemma isInteger_not_NaN: "isInteger n \<Longrightarrow> n \<noteq> NaN"
  by (cases n) simp_all

lemma z_string_eq:
  "z_string p input issues =
     (if getParsedType input = pt_string then (OK (the input), issues)
      else (INVALID, issues @ [makeIssue p pt_string (getParsedType input)]))"
  by (cases input rule: getParsedType.cases)
     (simp_all add: z_string_def addIssueToContext_def)

lemma z_number_eq:
  "z_number p input issues =
     (if getParsedType input = pt_number then (OK (the input), issues)
      else (INVALID, issues @ [makeIssue p pt_number (getParsedType input)]))"
  by (cases input rule: getParsedType.cases)
     (simp_all add: z_number_def addIssueToContext_def)

lemma schema_object_eq:
  "schema jsProxyChapters p (Some (JObj fm)) c =
     (if wellTyped fm
      then (OK (JObj [''title'' \<mapsto> the (fm ''title''),
                      ''description'' \<mapsto> the (fm ''description''),
                      ''chapterNumber'' \<mapsto> the (fm ''chapterNumber'')]), c)
      else (INVALID, c @ fieldIssues p ''title'' pt_string fm @
                fieldIssues p ''description'' pt_string fm @
                fieldIssues p ''chapterNumber'' pt_number fm))"
  by (simp add: jsProxyChapters_def z_object_def
      z_string_eq z_number_eq fieldIssues_def wellTyped_def)

lemma schema_other_eq:
  "getParsedType input \<noteq> pt_object \<Longrightarrow>
   schema jsProxyChapters p input c =
     (INVALID, c @ [makeIssue p pt_object (getParsedType input)])"
  by (cases input rule: getParsedType.cases)
     (simp_all add: jsProxyChapters_def z_object_def addIssueToContext_def)

lemma validate_eq:
  "validate fm =
     (if wellTyped fm
      then Inr (JObj [''title'' \<mapsto> the (fm ''title''),
                      ''description'' \<mapsto> the (fm ''description''),
                      ''chapterNumber'' \<mapsto> the (fm ''chapterNumber'')])
      else Inl (fieldIssues [] ''title'' pt_string fm @
                fieldIssues [] ''description'' pt_string fm @
                fieldIssues [] ''chapterNumber'' pt_number fm))"
  by (simp add: validate_def safeParse_def schema_object_eq)

lemma validate_well_typed:
  assumes "fm ''title'' = Some (JStr t)" "fm ''description'' = Some (JStr d)"
    "fm ''chapterNumber'' = Some (JNum n)" "n \<noteq> NaN"
  shows "validate fm = Inr (JObj [''title'' \<mapsto> JStr t, ''description'' \<mapsto> JStr d,
                                   ''chapterNumber'' \<mapsto> JNum n])"
  using assms by (simp add: validate_eq wellTyped_def)

lemma validate_rejected:
  "\<not> wellTyped fm \<Longrightarrow>
   validate fm = Inl (fieldIssues [] ''title'' pt_string fm @
                      fieldIssues [] ''description'' pt_string fm @
                      fieldIssues [] ''chapterNumber'' pt_number fm)"
  by (simp add: validate_eq)

lemma stripped_eq:
  assumes "fm ''title'' = Some a" "fm ''description'' = Some b" "fm ''chapterNumber'' = Some c"
  shows "[''title'' \<mapsto> a, ''description'' \<mapsto> b, ''chapterNumber'' \<mapsto> c] = stripped fm"
  using assms by (auto simp: stripped_def restrict_map_def fun_eq_iff)

lemma fieldIssues_mismatch:
  "getParsedType (fm key) \<noteq> expd \<Longrightarrow>
   fieldIssues p key expd fm = [makeIssue (p @ [key]) expd (getParsedType (fm key))]"
  by (simp add: fieldIssues_def)

lemma expectedType_defined:
  "expectedType field \<noteq> pt_undefined" "expectedType field \<noteq> pt_null"
  by (simp_all add: expectedType_def)

lemma schema_field_cases:
  assumes "field \<in> {''title'', ''description'', ''chapterNumber''}"
  obtains "field = ''title''" | "field = ''description''" | "field = ''chapterNumber''"
  using assms by blast

lemma wellTyped_field:
  assumes "wellTyped fm" "field \<in> {''title'', ''description'', ''chapterNumber''}"
  shows "getParsedType (fm field) = expectedType field"
  using assms(2,1)
  by (cases rule: schema_field_cases) (simp_all add: wellTyped_def expectedType_def)

lemma not_wellTyped_field:
  assumes "\<not> wellTyped fm"
  obtains field where "field \<in> {''title'', ''description'', ''chapterNumber''}"
    "getParsedType (fm field) \<noteq> expectedType field"
proof -
  from assms consider "getParsedType (fm ''title'') \<noteq> pt_string"
    | "getParsedType (fm ''description'') \<noteq> pt_string"
    | "getParsedType (fm ''chapterNumber'') \<noteq> pt_number"
    unfolding wellTyped_def by blast
  then show thesis
  proof cases
    case 1
    then show ?thesis using that [of "''title''"] by (simp add: expectedType_def)
  next
    case 2
    then show ?thesis using that [of "''description''"] by (simp add: expectedType_def)
  next
    case 3
    then show ?thesis using that [of "''chapterNumber''"] by (simp add: expectedType_def)
  qed
qed

text \<open>A field whose type is not the expected one has its issue in the failure.\<close>

lemma field_mismatch_rejected:
  assumes "field \<in> {''title'', ''description'', ''chapterNumber''}"
    and "getParsedType (fm field) \<noteq> expectedType field"
  shows "\<exists>issues. validate fm = Inl issues \<and>
           makeIssue [field] (expectedType field) (getParsedType (fm field)) \<in> set issues"
proof -
  have nw: "\<not> wellTyped fm" using assms wellTyped_field by blast
  have "makeIssue [field] (expectedType field) (getParsedType (fm field))
      \<in> set (fieldIssues [] field (expectedType field) fm)"
    using assms(2) by (simp add: fieldIssues_mismatch)
  with assms(1) have "makeIssue [field] (expectedType field) (getParsedType (fm field)) \<in>
      set (fieldIssues [] ''title'' pt_string fm @
           fieldIssues [] ''description'' pt_string fm @
           fieldIssues [] ''chapterNumber'' pt_number fm)"
    by (cases rule: schema_field_cases) (simp_all add: expectedType_def)
  then show ?thesis using validate_rejected [OF nw] by simp
qed

lemma validate_issue_cases:
  assumes "validate fm = Inl issues" "i \<in> set issues"
  obtains field where "field \<in> {''title'', ''description'', ''chapterNumber''}"
    "getParsedType (fm field) \<noteq> expectedType field"
    "i = makeIssue [field] (expectedType field) (getParsedType (fm field))"
proof -
  have nw: "\<not> wellTyped fm" using assms(1) by (auto simp: validate_eq split: if_splits)
  from assms have "i \<in> set (fieldIssues [] ''title'' pt_string fm)
      \<or> i \<in> set (fieldIssues [] ''description'' pt_string fm)
      \<or> i \<in> set (fieldIssues [] ''chapterNumber'' pt_number fm)"
    using validate_rejected [OF nw] by auto
  then consider "i \<in> set (fieldIssues [] ''title'' pt_string fm)"
    | "i \<in> set (fieldIssues [] ''description'' pt_string fm)"
    | "i \<in> set (fieldIssues [] ''chapterNumber'' pt_number fm)" by blast
  then show thesis
  proof cases
    case 1
    then show ?thesis using that [of "''title''"]
      by (simp add: fieldIssues_def expectedType_def split: if_splits)
  next
    case 2
    then show ?thesis using that [of "''description''"]
      by (simp add: fieldIssues_def expectedType_def split: if_splits)
  next
    case 3
    then show ?thesis using that [of "''chapterNumber''"]
      by (simp add: fieldIssues_def expectedType_def split: if_splits)
  qed
qed

lemma issue_at_field:
  assumes "validate fm = Inl issues" "i \<in> set issues" "path i = [field]"
  shows "field \<in> {''title'', ''description'', ''chapterNumber''}
    \<and> getParsedType (fm field) \<noteq> expectedType field
    \<and> i = makeIssue [field] (expectedType field) (getParsedType (fm field))"
proof -
  from assms(1,2) obtain g where g: "g \<in> {''title'', ''description'', ''chapterNumber''}"
    "getParsedType (fm g) \<noteq> expectedType g"
    "i = makeIssue [g] (expectedType g) (getParsedType (fm g))"
    by (rule validate_issue_cases)
  then have "g = field" using assms(3) by (simp add: makeIssue_def)
  with g show ?thesis by simp
qed

lemma wellTyped_stripped: "wellTyped (stripped fm) = wellTyped fm"
  by (simp add: wellTyped_def stripped_def)

lemma fieldIssues_stripped:
  "key \<in> {''title'', ''description'', ''chapterNumber''} \<Longrightarrow>
   fieldIssues p key expd (stripped fm) = fieldIssues p key expd fm"
  by (simp add: fieldIssues_def stripped_def)

lemma validate_stripped: "validate (stripped fm) = validate fm"
  by (simp add: validate_eq wellTyped_stripped fieldIssues_stripped) (simp add: stripped_def)

lemma dom_three:
  "dom [''title'' \<mapsto> a, ''description'' \<mapsto> b, ''chapterNumber'' \<mapsto> c]
     = {''title'', ''description'', ''chapterNumber''}"
  by auto

lemma validate_accepted:
  assumes "validate fm = Inr out"
  obtains t d n where "n \<noteq> NaN"
    "out = JObj [''title'' \<mapsto> JStr t, ''description'' \<mapsto> JStr d, ''chapterNumber'' \<mapsto> JNum n]"
proof -
  have w: "wellTyped fm" using assms by (auto simp: validate_eq split: if_splits)
  then obtain t d n where f: "fm ''title'' = Some (JStr t)" "fm ''description'' = Some (JStr d)"
    "fm ''chapterNumber'' = Some (JNum n)" "n \<noteq> NaN"
    by (auto simp: wellTyped_def getParsedType_string getParsedType_number)
  then have "out = JObj [''title'' \<mapsto> JStr t, ''description'' \<mapsto> JStr d,
                         ''chapterNumber'' \<mapsto> JNum n]"
    using assms validate_well_typed [OF f] by simp
  with f(4) show thesis by (rule that)
qed

text \<open>With a sound memo the parse of the schema object is the parse of the schema.\<close>

lemma getCached_sound:
  "memoSound obj \<Longrightarrow> getCached obj = (def_shape obj, memoFilled obj)"
  by (auto simp: memoSound_def getCached_def memoFilled_def)

lemma object_parse_record:
  assumes "memoSound obj"
  shows "object_parse obj p (Some (JObj fm)) issues
           = (z_object (def_shape obj) p (Some (JObj fm)) issues, memoFilled obj)"
  using assms
  by (simp add: object_parse_def getCached_sound z_object_def
      split: prod.splits ParseReturnType.splits)

lemma object_safeParse_record:
  assumes "memoSound obj"
  shows "object_safeParse obj (JObj fm)
           = (safeParse (z_object (def_shape obj)) (JObj fm), memoFilled obj)"
  using assms
  by (simp add: object_safeParse_def object_parse_record safeParse_def
      split: prod.splits ParseReturnType.splits)

lemma memoSound_filled: "memoSound (memoFilled obj)"
  by (simp add: memoSound_def memoFilled_def)

lemma memoFilled_idem: "memoFilled (memoFilled obj) = memoFilled obj"
  by (simp add: memoFilled_def)

lemma def_shape_filled: "def_shape (memoFilled obj) = def_shape obj"
  by (simp add: memoFilled_def)

lemma schema_chaptersObject: "z_object (def_shape chaptersObject) = schema jsProxyChapters"
  by (simp add: chaptersObject_def jsProxyChapters_def)

lemma memoSound_chaptersObject: "memoSound chaptersObject"
  by (simp add: memoSound_def chaptersObject_def)

lemma validateAll_sound:
  assumes "memoSound obj" "def_shape obj = def_shape chaptersObject"
  shows "validateAll obj fms
           = (map validate fms, if fms = [] then obj else memoFilled obj)"
  using assms
proof (induction fms arbitrary: obj)
  case Nil
  then show ?case by simp
next
  case (Cons fm fms)
  have 1: "object_safeParse obj (JObj fm) = (validate fm, memoFilled obj)"
    using Cons.prems
    by (simp add: object_safeParse_record schema_chaptersObject validate_def)
  have 2: "validateAll (memoFilled obj) fms
      = (map validate fms, if fms = [] then memoFilled obj else memoFilled (memoFilled obj))"
    using Cons.prems by (intro Cons.IH) (simp_all add: memoSound_filled def_shape_filled)
  show ?case by (simp add: 1 2 memoFilled_idem)
qed

lemma validateAll_chapters:
  "validateAll chaptersObject fms
     = (map validate fms, if fms = [] then chaptersObject else memoFilled chaptersObject)"
  by (rule validateAll_sound) (simp_all add: memoSound_chaptersObject)

lemma reached_sound:
  "memoSound (snd (validateAll chaptersObject before))
   \<and> def_shape (snd (validateAll chaptersObject before)) = def_shape chaptersObject"
  by (simp add: validateAll_chapters memoSound_chaptersObject memoSound_filled def_shape_filled)

lemma reached_filled:
  "memoFilled (snd (validateAll chaptersObject before)) = memoFilled chaptersObject"
  by (simp add: validateAll_chapters memoFilled_idem)

section \<open>The claims\<close>

text \<open>
  C1 (as amended). For a record in which chapterNumber is present, the failure with a
  type-mismatch issue naming chapterNumber arises exactly when the value is not a number
  (text, a boolean, null, NaN and so on). The schema asks for a number, not for an
  integer: a number with a fractional part raises no issue, and with a string title and
  a string description the record is accepted as it is.
\<close>

theorem chapterNumber_mismatch_iff_not_number:
  assumes "fm ''chapterNumber'' = Some v"
  shows "((\<exists>issues. validate fm = Inl issues \<and>
            (\<exists>i \<in> set issues. TypeMismatchError ''chapterNumber'' i))
         \<longleftrightarrow> \<not> (\<exists>n. v = JNum n \<and> n \<noteq> NaN))
    \<and> (fm ''title'' = Some (JStr t) \<and> fm ''description'' = Some (JStr d)
          \<and> v = JNum n \<and> n \<noteq> NaN \<longrightarrow>
        validate fm = Inr (JObj [''title'' \<mapsto> JStr t, ''description'' \<mapsto> JStr d,
                                 ''chapterNumber'' \<mapsto> JNum n]))"
proof (intro conjI impI iffI)
  assume "fm ''title'' = Some (JStr t) \<and> fm ''description'' = Some (JStr d)
          \<and> v = JNum n \<and> n \<noteq> NaN"
  then show "validate fm = Inr (JObj [''title'' \<mapsto> JStr t, ''description'' \<mapsto> JStr d,
                                 ''chapterNumber'' \<mapsto> JNum n])"
    using assms by (simp add: validate_well_typed)
next
  assume "\<exists>issues. validate fm = Inl issues \<and>
            (\<exists>i \<in> set issues. TypeMismatchError ''chapterNumber'' i)"
  then obtain issues i where a: "validate fm = Inl issues" "i \<in> set issues"
    "path i = [''chapterNumber'']"
    by (auto simp: TypeMismatchError_def)
  from issue_at_field [OF a] have "getParsedType (fm ''chapterNumber'') \<noteq> pt_number"
    by (simp add: expectedType_def)
  then show "\<not> (\<exists>n. v = JNum n \<and> n \<noteq> NaN)"
    using assms by (simp add: getParsedType_number)
next
  assume "\<not> (\<exists>n. v = JNum n \<and> n \<noteq> NaN)"
  then have ne: "getParsedType (fm ''chapterNumber'') \<noteq> expectedType ''chapterNumber''"
    using assms by (simp add: getParsedType_number expectedType_def)
  have und: "getParsedType (fm ''chapterNumber'') \<noteq> pt_undefined"
    using assms by (simp add: getParsedType_undefined)
  from field_mismatch_rejected [of "''chapterNumber''" fm] ne
  obtain issues where i: "validate fm = Inl issues"
    "makeIssue [''chapterNumber''] (expectedType ''chapterNumber'')
       (getParsedType (fm ''chapterNumber'')) \<in> set issues"
    by auto
  moreover have "TypeMismatchError ''chapterNumber''
     (makeIssue [''chapterNumber''] (expectedType ''chapterNumber'')
       (getParsedType (fm ''chapterNumber'')))"
    using und by (simp add: TypeMismatchError_def makeIssue_def)
  ultimately show "\<exists>issues. validate fm = Inl issues \<and>
            (\<exists>i \<in> set issues. TypeMismatchError ''chapterNumber'' i)"
    by blast
qed

theorem chapterNumber_mismatch_iff_not_number_witness:
  "validate [''title'' \<mapsto> JStr ''Chapter'', ''description'' \<mapsto> JStr ''desc'',
             ''chapterNumber'' \<mapsto> JStr ''four'']
     = Inl [makeIssue [''chapterNumber''] pt_number pt_string]
   \<and> TypeMismatchError ''chapterNumber'' (makeIssue [''chapterNumber''] pt_number pt_string)
   \<and> message (makeIssue [''chapterNumber''] pt_number pt_string)
       = ''Expected number, received string''"
proof -
  let ?fm = "[''title'' \<mapsto> JStr ''Chapter'', ''description'' \<mapsto> JStr ''desc'',
             ''chapterNumber'' \<mapsto> JStr ''four'']"
  have v: "validate ?fm = Inl [makeIssue [''chapterNumber''] pt_number pt_string]"
    by (simp add: validate_def safeParse_def jsProxyChapters_def z_object_def z_string_def
        z_number_def addIssueToContext_def)
  have "\<exists>issues. validate ?fm = Inl issues \<and>
            (\<exists>i \<in> set issues. TypeMismatchError ''chapterNumber'' i)"
    using chapterNumber_mismatch_iff_not_number [of ?fm "JStr ''four''", THEN conjunct1]
    by simp
  then have "TypeMismatchError ''chapterNumber'' (makeIssue [''chapterNumber''] pt_number pt_string)"
    by (simp add: v)
  then show ?thesis using v by (simp add: makeIssue_def errorMap_def)
qed

text \<open>
  The claim as first stated fails: 1.5 is not an integer, and the record that carries it
  as chapterNumber is accepted as it is.
\<close>

theorem fractional_chapterNumber_accepted:
  "\<not> isInteger (Finite (3 / 2)) \<and>
   validate [''title'' \<mapsto> JStr ''Chapter'', ''description'' \<mapsto> JStr ''desc'',
             ''chapterNumber'' \<mapsto> JNum (Finite (3 / 2))]
     = Inr (JObj [''title'' \<mapsto> JStr ''Chapter'', ''description'' \<mapsto> JStr ''desc'',
             ''chapterNumber'' \<mapsto> JNum (Finite (3 / 2))])"
proof -
  have "\<not> isInteger (Finite (3 / 2))" by code_simp
  moreover have "validate [''title'' \<mapsto> JStr ''Chapter'', ''description'' \<mapsto> JStr ''desc'',
             ''chapterNumber'' \<mapsto> JNum (Finite (3 / 2))]
     = Inr (JObj [''title'' \<mapsto> JStr ''Chapter'', ''description'' \<mapsto> JStr ''desc'',
             ''chapterNumber'' \<mapsto> JNum (Finite (3 / 2))])"
    by (simp add: validate_def safeParse_def jsProxyChapters_def z_object_def z_string_def
        z_number_def)
  ultimately show ?thesis by simp
qed

text \<open>
  C2 (as amended). The schema does not look at the length of a text: a record whose
  title or description is the empty string is accepted whenever title and description
  are strings and chapterNumber is a number.
\<close>

theorem empty_text_accepted:
  assumes "fm ''title'' = Some (JStr t)" "fm ''description'' = Some (JStr d)"
    and "t = [] \<or> d = []"
    and "fm ''chapterNumber'' = Some (JNum n)" "n \<noteq> NaN"
  shows "validate fm = Inr (JObj [''title'' \<mapsto> JStr t, ''description'' \<mapsto> JStr d,
                                   ''chapterNumber'' \<mapsto> JNum n])"
  using assms(1,2,4,5) by (rule validate_well_typed)

theorem empty_text_accepted_witness:
  "validate [''title'' \<mapsto> JStr ''Chapter'', ''description'' \<mapsto> JStr '''',
             ''chapterNumber'' \<mapsto> JNum (Finite 2)]
     = Inr (JObj [''title'' \<mapsto> JStr ''Chapter'', ''description'' \<mapsto> JStr '''',
             ''chapterNumber'' \<mapsto> JNum (Finite 2)])"
  using empty_text_accepted [of "[''title'' \<mapsto> JStr ''Chapter'', ''description'' \<mapsto> JStr '''',
             ''chapterNumber'' \<mapsto> JNum (Finite 2)]" "''Chapter''" "''''" "Finite 2"]
  by simp

text \<open>
  The claim as first stated fails on its own example: the record with the empty title is
  accepted.
\<close>

theorem empty_title_accepted:
  "validate [''title'' \<mapsto> JStr '''', ''description'' \<mapsto> JStr ''desc'',
             ''chapterNumber'' \<mapsto> JNum (Finite 1)]
     = Inr (JObj [''title'' \<mapsto> JStr '''', ''description'' \<mapsto> JStr ''desc'',
             ''chapterNumber'' \<mapsto> JNum (Finite 1)])"
  by (simp add: validate_def safeParse_def jsProxyChapters_def z_object_def z_string_def
        z_number_def)

text \<open>
  C3. A record whose title and description are non-empty strings and whose chapterNumber
  is an integer is accepted, and the output is the record cut down to these three
  fields: each of them carries the input's value as it is.
\<close>

theorem valid_record_accepted_unchanged:
  assumes "fm ''title'' = Some (JStr t)" "t \<noteq> []"
    and "fm ''description'' = Some (JStr d)" "d \<noteq> []"
    and "fm ''chapterNumber'' = Some (JNum n)" "isInteger n"
  shows "validate fm = Inr (JObj (stripped fm))
    \<and> stripped fm ''title'' = Some (JStr t)
    \<and> stripped fm ''description'' = Some (JStr d)
    \<and> stripped fm ''chapterNumber'' = Some (JNum n)"
proof -
  have "n \<noteq> NaN" using assms(6) by (rule isInteger_not_NaN)
  then have "validate fm = Inr (JObj [''title'' \<mapsto> JStr t, ''description'' \<mapsto> JStr d,
                                   ''chapterNumber'' \<mapsto> JNum n])"
    using assms by (simp add: validate_well_typed)
  then have "validate fm = Inr (JObj (stripped fm))"
    using assms by (simp add: stripped_eq)
  then show ?thesis using assms by (simp add: stripped_def)
qed

theorem valid_record_accepted_unchanged_witness:
  "validate [''title'' \<mapsto> JStr ''Using Reflect'',
             ''description'' \<mapsto> JStr ''Use Reflect API to simplify some Proxy handlers'',
             ''chapterNumber'' \<mapsto> JNum (Finite 4)]
   = Inr (JObj [''title'' \<mapsto> JStr ''Using Reflect'',
             ''description'' \<mapsto> JStr ''Use Reflect API to simplify some Proxy handlers'',
             ''chapterNumber'' \<mapsto> JNum (Finite 4)])"
proof -
  let ?fm = "[''title'' \<mapsto> JStr ''Using Reflect'',
             ''description'' \<mapsto> JStr ''Use Reflect API to simplify some Proxy handlers'',
             ''chapterNumber'' \<mapsto> JNum (Finite 4)]"
  have i: "isInteger (Finite 4)" by code_simp
  have s: "stripped ?fm = ?fm"
    by (auto simp: stripped_def restrict_map_def fun_eq_iff)
  have "validate ?fm = Inr (JObj (stripped ?fm))"
    using valid_record_accepted_unchanged
      [of ?fm "''Using Reflect''" "''Use Reflect API to simplify some Proxy handlers''" "Finite 4"] i
    by simp
  then show ?thesis by (simp only: s)
qed

text \<open>
  C4. A record from which one of title, description and chapterNumber is absent is
  rejected, and the failure holds a missing-field issue that names the absent field.
\<close>

theorem missing_field_reported:
  assumes "field \<in> {''title'', ''description'', ''chapterNumber''}" "fm field = None"
  shows "\<exists>issues. validate fm = Inl issues \<and> (\<exists>i \<in> set issues. MissingFieldError field i)"
proof -
  have "getParsedType (fm field) \<noteq> expectedType field"
    using assms(2) expectedType_defined(1) [of field] by simp
  with assms(1) obtain issues where "validate fm = Inl issues"
    "makeIssue [field] (expectedType field) pt_undefined \<in> set issues"
    using field_mismatch_rejected [of field fm] assms(2) by auto
  moreover have "MissingFieldError field (makeIssue [field] (expectedType field) pt_undefined)"
    by (simp add: MissingFieldError_def makeIssue_def)
  ultimately show ?thesis by blast
qed

theorem missing_field_reported_witness:
  "validate [''title'' \<mapsto> JStr ''Using Reflect'', ''chapterNumber'' \<mapsto> JNum (Finite 4)]
     = Inl [makeIssue [''description''] pt_string pt_undefined]
   \<and> MissingFieldError ''description'' (makeIssue [''description''] pt_string pt_undefined)
   \<and> message (makeIssue [''description''] pt_string pt_undefined) = ''Required''"
proof -
  let ?fm = "[''title'' \<mapsto> JStr ''Using Reflect'', ''chapterNumber'' \<mapsto> JNum (Finite 4)]"
  have v: "validate ?fm = Inl [makeIssue [''description''] pt_string pt_undefined]"
    by (simp add: validate_def safeParse_def jsProxyChapters_def z_object_def z_string_def
        z_number_def addIssueToContext_def)
  have "\<exists>issues. validate ?fm = Inl issues \<and> (\<exists>i \<in> set issues. MissingFieldError ''description'' i)"
    using missing_field_reported [of "''description''" ?fm] by simp
  then have "MissingFieldError ''description'' (makeIssue [''description''] pt_string pt_undefined)"
    by (simp add: v)
  then show ?thesis using v by (simp add: makeIssue_def errorMap_def)
qed

text \<open>
  C5. The output of an accepted record holds exactly the three fields title, description
  and chapterNumber, a string, a string and a number (so none of them null). Fields
  beyond these three play no part: every record that agrees with an accepted one on the
  three fields is accepted too, with the same output, which holds none of the extra
  fields.
\<close>

theorem accepted_output_shape:
  assumes "validate fm = Inr out"
  shows "(\<exists>m t d n. out = JObj m
            \<and> dom m = {''title'', ''description'', ''chapterNumber''}
            \<and> m ''title'' = Some (JStr t) \<and> m ''description'' = Some (JStr d)
            \<and> m ''chapterNumber'' = Some (JNum n) \<and> n \<noteq> NaN)
         \<and> (\<forall>fm'. stripped fm' = stripped fm \<longrightarrow> validate fm' = Inr out)"
proof
  from assms obtain t d n where o: "n \<noteq> NaN"
    "out = JObj [''title'' \<mapsto> JStr t, ''description'' \<mapsto> JStr d, ''chapterNumber'' \<mapsto> JNum n]"
    by (rule validate_accepted)
  let ?m = "[''title'' \<mapsto> JStr t, ''description'' \<mapsto> JStr d, ''chapterNumber'' \<mapsto> JNum n]"
  have "dom ?m = {''title'', ''description'', ''chapterNumber''}" by (rule dom_three)
  moreover have "?m ''title'' = Some (JStr t)" "?m ''description'' = Some (JStr d)"
    "?m ''chapterNumber'' = Some (JNum n)" by simp_all
  ultimately show "\<exists>m t d n. out = JObj m
            \<and> dom m = {''title'', ''description'', ''chapterNumber''}
            \<and> m ''title'' = Some (JStr t) \<and> m ''description'' = Some (JStr d)
            \<and> m ''chapterNumber'' = Some (JNum n) \<and> n \<noteq> NaN"
    using o by blast
next
  show "\<forall>fm'. stripped fm' = stripped fm \<longrightarrow> validate fm' = Inr out"
  proof (intro allI impI)
    fix fm' assume "stripped fm' = stripped fm"
    then have "validate fm' = validate fm" using validate_stripped by metis
    then show "validate fm' = Inr out" using assms by simp
  qed
qed

theorem accepted_output_shape_witness:
  "validate [''title'' \<mapsto> JStr ''Using Reflect'', ''description'' \<mapsto> JStr ''Use Reflect API'',
             ''chapterNumber'' \<mapsto> JNum (Finite 4), ''draft'' \<mapsto> JBool True]
     = Inr (JObj [''title'' \<mapsto> JStr ''Using Reflect'', ''description'' \<mapsto> JStr ''Use Reflect API'',
             ''chapterNumber'' \<mapsto> JNum (Finite 4)])
   \<and> (\<exists>m t d n. JObj [''title'' \<mapsto> JStr ''Using Reflect'', ''description'' \<mapsto> JStr ''Use Reflect API'',
             ''chapterNumber'' \<mapsto> JNum (Finite 4)] = JObj m
            \<and> dom m = {''title'', ''description'', ''chapterNumber''}
            \<and> m ''title'' = Some (JStr t) \<and> m ''description'' = Some (JStr d)
            \<and> m ''chapterNumber'' = Some (JNum n) \<and> n \<noteq> NaN)"
proof -
  let ?fm = "[''title'' \<mapsto> JStr ''Using Reflect'', ''description'' \<mapsto> JStr ''Use Reflect API'',
             ''chapterNumber'' \<mapsto> JNum (Finite 4), ''draft'' \<mapsto> JBool True]"
  let ?out = "[''title'' \<mapsto> JStr ''Using Reflect'', ''description'' \<mapsto> JStr ''Use Reflect API'',
             ''chapterNumber'' \<mapsto> JNum (Finite 4)]"
  have v: "validate ?fm = Inr (JObj ?out)"
    by (simp add: validate_def safeParse_def jsProxyChapters_def z_object_def z_string_def
        z_number_def)
  from accepted_output_shape [OF v] show ?thesis using v by blast
qed

text \<open>
  C6 (as amended). Validation is all or nothing: every record is either accepted, with an
  output in which title and description are strings and chapterNumber is a number (which
  need not be an integer), or rejected with a non-empty list of issues and no output
  record. Run on the schema object in any state it can be in, validation ends with this
  same outcome, and the only state it changes is the schema object's memo of its shape:
  the first validation, accepted or rejected alike, fills it, with a content that does
  not depend on the record, and every later validation leaves the state as it is.
\<close>

theorem all_or_nothing_schema_typed:
  "((\<exists>t d n. n \<noteq> NaN \<and>
       validate fm = Inr (JObj [''title'' \<mapsto> JStr t, ''description'' \<mapsto> JStr d,
                                 ''chapterNumber'' \<mapsto> JNum n]))
    \<or> (\<exists>issues. issues \<noteq> [] \<and> validate fm = Inl issues))
   \<and> fst (object_safeParse (snd (validateAll chaptersObject before)) (JObj fm)) = validate fm
   \<and> snd (object_safeParse (snd (validateAll chaptersObject before)) (JObj fm))
       = chaptersObject\<lparr>cached := Some (def_shape chaptersObject)\<rparr>
   \<and> (before \<noteq> [] \<longrightarrow>
        snd (object_safeParse (snd (validateAll chaptersObject before)) (JObj fm))
          = snd (validateAll chaptersObject before))"
proof (intro conjI impI)
  show "(\<exists>t d n. n \<noteq> NaN \<and>
       validate fm = Inr (JObj [''title'' \<mapsto> JStr t, ''description'' \<mapsto> JStr d,
                                 ''chapterNumber'' \<mapsto> JNum n]))
    \<or> (\<exists>issues. issues \<noteq> [] \<and> validate fm = Inl issues)"
  proof (cases "wellTyped fm")
    case True
    then obtain t d n where "fm ''title'' = Some (JStr t)" "fm ''description'' = Some (JStr d)"
      "fm ''chapterNumber'' = Some (JNum n)" "n \<noteq> NaN"
      by (auto simp: wellTyped_def getParsedType_string getParsedType_number)
    then show ?thesis using validate_well_typed by blast
  next
    case False
    then obtain field where "field \<in> {''title'', ''description'', ''chapterNumber''}"
      "getParsedType (fm field) \<noteq> expectedType field"
      by (rule not_wellTyped_field)
    then show ?thesis using field_mismatch_rejected [of field fm] by auto
  qed
next
  let ?obj = "snd (validateAll chaptersObject before)"
  have s: "memoSound ?obj" and d: "def_shape ?obj = def_shape chaptersObject"
    using reached_sound [of before] by simp_all
  have r: "object_safeParse ?obj (JObj fm) = (validate fm, memoFilled chaptersObject)"
    using s by (simp add: object_safeParse_record d schema_chaptersObject validate_def
        reached_filled)
  show "fst (object_safeParse ?obj (JObj fm)) = validate fm" by (simp add: r)
  show "snd (object_safeParse ?obj (JObj fm))
       = chaptersObject\<lparr>cached := Some (def_shape chaptersObject)\<rparr>"
    by (simp add: r memoFilled_def)
  show "snd (object_safeParse ?obj (JObj fm)) = ?obj" if "before \<noteq> []"
  proof -
    from that have o: "?obj = memoFilled chaptersObject"
      by (simp add: validateAll_chapters)
    have "snd (object_safeParse ?obj (JObj fm)) = memoFilled chaptersObject"
      by (simp add: r)
    then show ?thesis by (simp add: o)
  qed
qed

theorem all_or_nothing_schema_typed_witness:
  "validate [''title'' \<mapsto> JStr ''Using Reflect'', ''chapterNumber'' \<mapsto> JNum (Finite 4)]
     = Inl [makeIssue [''description''] pt_string pt_undefined]
   \<and> object_safeParse
        (snd (validateAll chaptersObject
          [[''title'' \<mapsto> JStr ''A'', ''description'' \<mapsto> JStr ''B'',
            ''chapterNumber'' \<mapsto> JNum (Finite 1)]]))
        (JObj [''title'' \<mapsto> JStr ''Using Reflect'', ''chapterNumber'' \<mapsto> JNum (Finite 4)])
     = (Inl [makeIssue [''description''] pt_string pt_undefined],
        snd (validateAll chaptersObject
          [[''title'' \<mapsto> JStr ''A'', ''description'' \<mapsto> JStr ''B'',
            ''chapterNumber'' \<mapsto> JNum (Finite 1)]]))"
proof -
  let ?a = "[''title'' \<mapsto> JStr ''A'', ''description'' \<mapsto> JStr ''B'',
             ''chapterNumber'' \<mapsto> JNum (Finite 1)]"
  let ?b = "[''title'' \<mapsto> JStr ''Using Reflect'', ''chapterNumber'' \<mapsto> JNum (Finite 4)]"
  have v: "validate ?b = Inl [makeIssue [''description''] pt_string pt_undefined]"
    by (simp add: validate_def safeParse_def jsProxyChapters_def z_object_def z_string_def
        z_number_def addIssueToContext_def)
  let ?obj = "snd (validateAll chaptersObject [?a])"
  note th = all_or_nothing_schema_typed [of ?b "[?a]"]
  have ne: "[?a] \<noteq> []" by simp
  have "fst (object_safeParse ?obj (JObj ?b)) = validate ?b"
    using th by blast
  then have 1: "fst (object_safeParse ?obj (JObj ?b))
      = Inl [makeIssue [''description''] pt_string pt_undefined]"
    by (simp only: v)
  have 2: "snd (object_safeParse ?obj (JObj ?b)) = ?obj"
    using th ne by blast
  have "object_safeParse ?obj (JObj ?b)
      = (fst (object_safeParse ?obj (JObj ?b)), snd (object_safeParse ?obj (JObj ?b)))"
    by (rule prod.collapse [symmetric])
  then have "object_safeParse ?obj (JObj ?b)
      = (Inl [makeIssue [''description''] pt_string pt_undefined], ?obj)"
    by (simp only: 1 2)
  with v show ?thesis by blast
qed

text \<open>
  The claim as first stated fails twice. A record whose chapterNumber is 2.5, which is
  not an integer, is accepted with that value in the output; and the rejection of a
  record on the schema object as built changes the state: the memo is filled.
\<close>

theorem fractional_output_and_memo_written:
  "\<not> isInteger (Finite (5 / 2))
   \<and> validate [''title'' \<mapsto> JStr ''Chapter'', ''description'' \<mapsto> JStr ''desc'',
               ''chapterNumber'' \<mapsto> JNum (Finite (5 / 2))]
       = Inr (JObj [''title'' \<mapsto> JStr ''Chapter'', ''description'' \<mapsto> JStr ''desc'',
               ''chapterNumber'' \<mapsto> JNum (Finite (5 / 2))])
   \<and> object_safeParse chaptersObject (JObj [''title'' \<mapsto> JStr ''Chapter''])
       = (Inl [makeIssue [''description''] pt_string pt_undefined,
               makeIssue [''chapterNumber''] pt_number pt_undefined],
          chaptersObject\<lparr>cached := Some (def_shape chaptersObject)\<rparr>)
   \<and> chaptersObject\<lparr>cached := Some (def_shape chaptersObject)\<rparr> \<noteq> chaptersObject"
proof -
  have "\<not> isInteger (Finite (5 / 2))" by code_simp
  moreover have "validate [''title'' \<mapsto> JStr ''Chapter'', ''description'' \<mapsto> JStr ''desc'',
               ''chapterNumber'' \<mapsto> JNum (Finite (5 / 2))]
       = Inr (JObj [''title'' \<mapsto> JStr ''Chapter'', ''description'' \<mapsto> JStr ''desc'',
               ''chapterNumber'' \<mapsto> JNum (Finite (5 / 2))])"
    by (simp add: validate_def safeParse_def jsProxyChapters_def z_object_def z_string_def
        z_number_def)
  moreover have "object_safeParse chaptersObject (JObj [''title'' \<mapsto> JStr ''Chapter''])
       = (Inl [makeIssue [''description''] pt_string pt_undefined,
               makeIssue [''chapterNumber''] pt_number pt_undefined],
          chaptersObject\<lparr>cached := Some (def_shape chaptersObject)\<rparr>)"
    by (simp add: object_safeParse_def object_parse_def getCached_def chaptersObject_def
        z_string_def z_number_def addIssueToContext_def)
  moreover have "chaptersObject\<lparr>cached := Some (def_shape chaptersObject)\<rparr> \<noteq> chaptersObject"
    by (simp add: chaptersObject_def)
  ultimately show ?thesis by simp
qed

text \<open>
  C7. Validation is deterministic and idempotent: in whatever state earlier validations
  have left the schema object, validating a record twice, the second time in the state
  the first has left, yields twice the same outcome, the one the record has on its own:
  the same issues, or the same output record.
\<close>

theorem validated_twice_same_outcome:
  "fst (validateAll (snd (validateAll chaptersObject before)) [fm, fm])
     = [validate fm, validate fm]"
proof -
  have "memoSound (snd (validateAll chaptersObject before))"
    and "def_shape (snd (validateAll chaptersObject before)) = def_shape chaptersObject"
    using reached_sound [of before] by simp_all
  then have "validateAll (snd (validateAll chaptersObject before)) [fm, fm]
      = (map validate [fm, fm], memoFilled (snd (validateAll chaptersObject before)))"
    using validateAll_sound [of "snd (validateAll chaptersObject before)" "[fm, fm]"]
    by simp
  then show ?thesis by simp
qed

theorem validated_twice_same_outcome_witness:
  "fst (validateAll chaptersObject
      [[''title'' \<mapsto> JStr ''Using Reflect'', ''description'' \<mapsto> JStr ''Use Reflect API'',
        ''chapterNumber'' \<mapsto> JNum (Finite 4)],
       [''title'' \<mapsto> JStr ''Using Reflect'', ''description'' \<mapsto> JStr ''Use Reflect API'',
        ''chapterNumber'' \<mapsto> JNum (Finite 4)]])
   = [Inr (JObj [''title'' \<mapsto> JStr ''Using Reflect'', ''description'' \<mapsto> JStr ''Use Reflect API'',
        ''chapterNumber'' \<mapsto> JNum (Finite 4)]),
      Inr (JObj [''title'' \<mapsto> JStr ''Using Reflect'', ''description'' \<mapsto> JStr ''Use Reflect API'',
        ''chapterNumber'' \<mapsto> JNum (Finite 4)])]"
proof -
  let ?fm = "[''title'' \<mapsto> JStr ''Using Reflect'', ''description'' \<mapsto> JStr ''Use Reflect API'',
        ''chapterNumber'' \<mapsto> JNum (Finite 4)]"
  have v: "validate ?fm = Inr (JObj ?fm)"
    by (simp add: validate_def safeParse_def jsProxyChapters_def z_object_def z_string_def
        z_number_def)
  have "fst (validateAll (snd (validateAll chaptersObject [])) [?fm, ?fm])
      = [validate ?fm, validate ?fm]"
    by (rule validated_twice_same_outcome)
  then show ?thesis by (simp only: v validateAll.simps snd_conv)
qed




text \<open>
  C9. The body of a document plays no part: two documents with the same front-matter
  record end with the same outcome (the same issues, or the same validated record), and
  the body passed onward with an accepted record is the document's body as it is.
\<close>

theorem body_is_opaque:
  "(frontmatter d1 = frontmatter d2 \<longrightarrow>
      map_sum id fst (admit d1) = map_sum id fst (admit d2))
   \<and> (admit doc = Inr (validated, b) \<longrightarrow> b = body doc)"
  by (auto simp: admit_def split: sum.splits)

theorem body_is_opaque_witness:
  "admit \<lparr>frontmatter = [''title'' \<mapsto> JStr ''A'', ''description'' \<mapsto> JStr ''B'',
             ''chapterNumber'' \<mapsto> JNum (Finite 1)], body = ''## What is Reflect?''\<rparr>
     = Inr (JObj [''title'' \<mapsto> JStr ''A'', ''description'' \<mapsto> JStr ''B'',
             ''chapterNumber'' \<mapsto> JNum (Finite 1)], ''## What is Reflect?'')
   \<and> map_sum id fst (admit \<lparr>frontmatter = [''title'' \<mapsto> JStr ''A'', ''description'' \<mapsto> JStr ''B'',
             ''chapterNumber'' \<mapsto> JNum (Finite 1)], body = ''## What is Reflect?''\<rparr>)
     = map_sum id fst (admit \<lparr>frontmatter = [''title'' \<mapsto> JStr ''A'', ''description'' \<mapsto> JStr ''B'',
             ''chapterNumber'' \<mapsto> JNum (Finite 1)], body = ''other text''\<rparr>)"
proof -
  let ?fm = "[''title'' \<mapsto> JStr ''A'', ''description'' \<mapsto> JStr ''B'',
             ''chapterNumber'' \<mapsto> JNum (Finite 1)]"
  let ?d1 = "\<lparr>frontmatter = ?fm, body = ''## What is Reflect?''\<rparr>"
  let ?d2 = "\<lparr>frontmatter = ?fm, body = ''other text''\<rparr>"
  have v: "validate ?fm = Inr (JObj ?fm)"
    by (simp add: validate_def safeParse_def jsProxyChapters_def z_object_def z_string_def
        z_number_def)
  obtain b where a: "admit ?d1 = Inr (JObj ?fm, b)" by (simp add: admit_def v)
  note th = body_is_opaque [of ?d1 ?d2 ?d1 "JObj ?fm" b]
  have "b = ''## What is Reflect?''" using th a by simp
  with a have 1: "admit ?d1 = Inr (JObj ?fm, ''## What is Reflect?'')" by simp
  have 2: "map_sum id fst (admit ?d1) = map_sum id fst (admit ?d2)" using th by simp
  show ?thesis using 1 2 by simp
qed

text \<open>
  C10. A field of the schema that is present and bound to null is reported as a type
  mismatch naming the field (the received type is null), and no missing-field issue is
  raised for it; a missing-field issue for a field arises only when the record has no
  such key.
\<close>

theorem null_field_is_type_mismatch:
  "(field \<in> {''title'', ''description'', ''chapterNumber''} \<and> fm field = Some JNull \<longrightarrow>
      (\<exists>issues. validate fm = Inl issues
         \<and> (\<exists>i \<in> set issues. TypeMismatchError field i \<and> received i = pt_null)
         \<and> (\<forall>i \<in> set issues. \<not> MissingFieldError field i)))
   \<and> (validate fm' = Inl issues' \<and> i' \<in> set issues' \<and> MissingFieldError f i' \<longrightarrow>
        fm' f = None)"
proof (intro conjI impI)
  assume "validate fm' = Inl issues' \<and> i' \<in> set issues' \<and> MissingFieldError f i'"
  then have a: "validate fm' = Inl issues'" "i' \<in> set issues'" "path i' = [f]"
    and r: "received i' = pt_undefined"
    by (simp_all add: MissingFieldError_def)
  from issue_at_field [OF a] r have "getParsedType (fm' f) = pt_undefined"
    by (simp add: makeIssue_def)
  then show "fm' f = None" by (simp add: getParsedType_undefined)
next
  assume h: "field \<in> {''title'', ''description'', ''chapterNumber''} \<and> fm field = Some JNull"
  then have "getParsedType (fm field) \<noteq> expectedType field"
    using expectedType_defined(2) [of field] by simp
  with h obtain issues where i: "validate fm = Inl issues"
    "makeIssue [field] (expectedType field) pt_null \<in> set issues"
    using field_mismatch_rejected [of field fm] by auto
  have t: "TypeMismatchError field (makeIssue [field] (expectedType field) pt_null)
      \<and> received (makeIssue [field] (expectedType field) pt_null) = pt_null"
    by (simp add: TypeMismatchError_def makeIssue_def)
  have "\<not> MissingFieldError field j" if "j \<in> set issues" for j
  proof
    assume "MissingFieldError field j"
    then have "path j = [field]" "received j = pt_undefined"
      by (simp_all add: MissingFieldError_def)
    with issue_at_field [OF i(1) that, of field] h show False
      by (simp add: makeIssue_def)
  qed
  with i t show "\<exists>issues. validate fm = Inl issues
         \<and> (\<exists>i \<in> set issues. TypeMismatchError field i \<and> received i = pt_null)
         \<and> (\<forall>i \<in> set issues. \<not> MissingFieldError field i)"
    by blast
qed

theorem null_field_is_type_mismatch_witness:
  "validate [''title'' \<mapsto> JNull, ''description'' \<mapsto> JStr ''desc'',
             ''chapterNumber'' \<mapsto> JNum (Finite 1)]
     = Inl [makeIssue [''title''] pt_string pt_null]
   \<and> TypeMismatchError ''title'' (makeIssue [''title''] pt_string pt_null)
   \<and> \<not> MissingFieldError ''title'' (makeIssue [''title''] pt_string pt_null)
   \<and> validate [''title'' \<mapsto> JStr ''Using Reflect'', ''chapterNumber'' \<mapsto> JNum (Finite 4)]
     = Inl [makeIssue [''description''] pt_string pt_undefined]
   \<and> MissingFieldError ''description'' (makeIssue [''description''] pt_string pt_undefined)
   \<and> [''title'' \<mapsto> JStr ''Using Reflect'', ''chapterNumber'' \<mapsto> JNum (Finite 4)]
        ''description'' = None"
proof -
  let ?fm = "[''title'' \<mapsto> JNull, ''description'' \<mapsto> JStr ''desc'',
             ''chapterNumber'' \<mapsto> JNum (Finite 1)]"
  let ?fm' = "[''title'' \<mapsto> JStr ''Using Reflect'', ''chapterNumber'' \<mapsto> JNum (Finite 4)]"
  let ?i' = "makeIssue [''description''] pt_string pt_undefined"
  have v: "validate ?fm = Inl [makeIssue [''title''] pt_string pt_null]"
    by (simp add: validate_def safeParse_def jsProxyChapters_def z_object_def z_string_def
        z_number_def addIssueToContext_def)
  have v': "validate ?fm' = Inl [?i']"
    by (simp add: validate_def safeParse_def jsProxyChapters_def z_object_def z_string_def
        z_number_def addIssueToContext_def)
  have m: "MissingFieldError ''description'' ?i'"
    by (simp add: MissingFieldError_def makeIssue_def)
  note th = null_field_is_type_mismatch
    [of "''title''" ?fm ?fm' "[?i']" ?i' "''description''"]
  have "\<exists>issues. validate ?fm = Inl issues
         \<and> (\<exists>i \<in> set issues. TypeMismatchError ''title'' i \<and> received i = pt_null)
         \<and> (\<forall>i \<in> set issues. \<not> MissingFieldError ''title'' i)"
    using th by simp
  then have 1: "TypeMismatchError ''title'' (makeIssue [''title''] pt_string pt_null)
      \<and> \<not> MissingFieldError ''title'' (makeIssue [''title''] pt_string pt_null)"
    by (simp add: v)
  have 2: "?fm' ''description'' = None"
    using th v' m by simp
  show ?thesis using v v' m 1 2 by simp
qed

end
